theory Spec2Isabelle
  imports Main
begin

section \<open>The muniverse Python binding: \<open>bindings/python/muniverse/env.py\<close>\<close>

text \<open>
  The module defines one class, \<open>Env\<close>, a facade over a \<open>Handle\<close> object imported from
  the sibling module \<open>handle\<close>. The class has a constructor and the methods \<open>reset\<close>
  and \<open>close\<close>. Everything the class does is: validate its keyword arguments, build a
  call name and an argument dictionary, and invoke \<open>Handle()\<close>, \<open>handle.checked_call\<close>
  and \<open>handle.close\<close> inside \<open>try\<close>/\<open>finally\<close> blocks.

  The embedding makes the Python effects explicit: a raised exception is a value, the
  attributes of \<open>self\<close> are a record that is passed in and returned, and every
  invocation of an operation of the \<open>Handle\<close> class is appended to a trace, so that
  "which calls were issued, in which order" is a property of a value.
\<close>

subsection \<open>Python values, dictionaries and exceptions\<close>

text \<open>
  The values that travel through \<open>env.py\<close> are opaque to it: it only tests them with
  \<open>is None\<close>, stores them in a dictionary and subscripts the result of a call with the
  key \<open>'UID'\<close>. A dictionary keeps its keys in insertion order, as Python's does.
\<close>

datatype pyval =
    PNone
  | PBool bool
  | PInt int
  | PStr string
  | PList "pyval list"
  | PDict "(string \<times> pyval) list"

type_synonym pydict = "(string \<times> pyval) list"

datatype exn =
    ValueError string
  | KeyError string
  | TypeError
  | AttributeError string
  | MuniverseError string
  | OtherError string

text \<open>\<open>d[k] = v\<close>: overwrite the value of an existing key in place, else append the key.\<close>

fun setitem :: "pydict \<Rightarrow> string \<Rightarrow> pyval \<Rightarrow> pydict" where
  "setitem [] k v = [(k, v)]"
| "setitem ((k', v') # d) k v =
     (if k' = k then (k, v) # d else (k', v') # setitem d k v)"

text \<open>
  \<open>x[k]\<close> for a string key \<open>k\<close>: a dictionary without the key raises \<open>KeyError(k)\<close>;
  a list or a string wants integer indices and \<open>None\<close>, booleans and integers are not
  subscriptable, all of which is a \<open>TypeError\<close>.
\<close>

fun getitem :: "pyval \<Rightarrow> string \<Rightarrow> exn + pyval" where
  "getitem (PDict d) k = (case map_of d k of None \<Rightarrow> Inl (KeyError k) | Some v \<Rightarrow> Inr v)"
| "getitem _ k = Inl TypeError"

subsection \<open>The \<open>Handle\<close> class, as \<open>env.py\<close> uses it\<close>

text \<open>
  \<open>from .handle import Handle\<close>: the class is not part of \<open>env.py\<close>, so it is a
  parameter of the embedding. \<open>env.py\<close> uses three of its operations: the constructor
  \<open>Handle()\<close>, \<open>checked_call(name, args)\<close> and \<open>close()\<close>. Each of them acts on the
  world outside the interpreter (type \<open>'w\<close>: the backend process, its pipes) and either
  returns or raises; \<open>'h\<close> is the type of handle objects. The value \<open>close()\<close> returns is
  never used, so only "returned" (\<open>None\<close>) or "raised" (\<open>Some e\<close>) is kept of it.
\<close>

record ('h, 'w) Handle_class =
  Handle_init :: "'w \<Rightarrow> (exn + 'h) \<times> 'w"
  Handle_checked_call :: "'h \<Rightarrow> string \<Rightarrow> pydict \<Rightarrow> 'w \<Rightarrow> (exn + pyval) \<times> 'w"
  Handle_close :: "'h \<Rightarrow> 'w \<Rightarrow> exn option \<times> 'w"

text \<open>
  The trace records every invocation that \<open>env.py\<close> makes on the class, in order, with
  its arguments, whether the invocation then returns or raises.
\<close>

datatype 'h event =
    Construct
  | Call 'h string pydict
  | Close 'h

record ('h, 'w) sys =
  backend :: 'w
  trace :: "'h event list"

definition Handle :: "('h, 'w) Handle_class \<Rightarrow> ('h, 'w) sys \<Rightarrow> (exn + 'h) \<times> ('h, 'w) sys" where
  "Handle H s =
     (case Handle_init H (backend s) of
        (r, w) \<Rightarrow> (r, \<lparr>backend = w, trace = trace s @ [Construct]\<rparr>))"

definition checked_call ::
  "('h, 'w) Handle_class \<Rightarrow> 'h \<Rightarrow> string \<Rightarrow> pydict \<Rightarrow> ('h, 'w) sys \<Rightarrow> (exn + pyval) \<times> ('h, 'w) sys" where
  "checked_call H h name args s =
     (case Handle_checked_call H h name args (backend s) of
        (r, w) \<Rightarrow> (r, \<lparr>backend = w, trace = trace s @ [Call h name args]\<rparr>))"

definition close :: "('h, 'w) Handle_class \<Rightarrow> 'h \<Rightarrow> ('h, 'w) sys \<Rightarrow> exn option \<times> ('h, 'w) sys" where
  "close H h s =
     (case Handle_close H h (backend s) of
        (r, w) \<Rightarrow> (r, \<lparr>backend = w, trace = trace s @ [Close h]\<rparr>))"

text \<open>The calls of a trace, without the handle they went to.\<close>

fun calls :: "'h event list \<Rightarrow> (string \<times> pydict) list" where
  "calls [] = []"
| "calls (Call h name args # es) = (name, args) # calls es"
| "calls (_ # es) = calls es"

text \<open>The handles closed in a trace.\<close>

fun closes :: "'h event list \<Rightarrow> 'h list" where
  "closes [] = []"
| "closes (Close h # es) = h # closes es"
| "closes (_ # es) = closes es"

subsection \<open>The class \<open>Env\<close>\<close>

text \<open>
  An instance has two attributes, \<open>handle\<close> and \<open>uid\<close>. An attribute that was never
  assigned is \<open>Unset\<close> (reading it raises \<open>AttributeError\<close>); \<open>self.handle\<close> holds
  Python's \<open>None\<close> (\<open>Attr None\<close>) or a handle object (\<open>Attr (Some h)\<close>).
\<close>

datatype 'a attr = Unset | Attr 'a

record 'h Env =
  handle :: "'h option attr"
  uid :: "pyval attr"

text \<open>
  Lines 30 to 38 of \<open>__init__\<close>: the call name and the argument dictionary.
  \<open>not x is None\<close> is \<open>x \<noteq> PNone\<close>.
\<close>

definition build_call :: "pyval \<Rightarrow> pyval \<Rightarrow> pyval \<Rightarrow> pyval \<Rightarrow> string \<times> pydict" where
  "build_call spec container chrome_host game_host =
     (let call_obj = [(''Spec'', spec)];
          call_name = ''NewEnv''
      in if container \<noteq> PNone then
           (''NewEnvContainer'', setitem call_obj ''Container'' container)
         else if chrome_host \<noteq> PNone then
           (''NewEnvChrome'',
            setitem (setitem call_obj ''Host'' chrome_host) ''GameHost'' game_host)
         else (call_name, call_obj))"

text \<open>
  \<open>Env.__init__(self, spec, container, chrome_host, game_host)\<close>, an omitted keyword
  argument being \<open>PNone\<close>. The result is the exception that leaves the method
  (\<open>None\<close> when it returns), the attributes of \<open>self\<close> and the system afterwards.

  Lines 26 to 29 raise before anything else happens. Line 39 assigns
  \<open>self.handle = None\<close>, line 40 constructs the handle outside the \<open>try\<close>. The body of
  the \<open>try\<close> (lines 42, 43) calls, subscripts the result with \<open>'UID'\<close>, assigns
  \<open>self.uid\<close> and then \<open>self.handle\<close>; an exception at any of the first two steps skips
  the assignments. The \<open>finally\<close> block (lines 45, 46) closes the handle when
  \<open>self.handle\<close> is still \<open>None\<close>; an exception raised by that \<open>close()\<close> replaces the
  pending one, otherwise the pending one (if any) is raised again.
\<close>

definition Env_init ::
  "('h, 'w) Handle_class \<Rightarrow> 'h Env \<Rightarrow> pyval \<Rightarrow> pyval \<Rightarrow> pyval \<Rightarrow> pyval \<Rightarrow> ('h, 'w) sys
     \<Rightarrow> exn option \<times> 'h Env \<times> ('h, 'w) sys" where
  "Env_init H self spec container chrome_host game_host s =
     (if (chrome_host = PNone) \<noteq> (game_host = PNone) then
        (Some (ValueError ''must set both chrome_host and game_host''), self, s)
      else if container \<noteq> PNone \<and> chrome_host \<noteq> PNone then
        (Some (ValueError ''cannot mix chrome_host and container options''), self, s)
      else
        (case build_call spec container chrome_host game_host of (call_name, call_obj) \<Rightarrow>
         let self1 = self\<lparr>handle := Attr None\<rparr> in
         (case Handle H s of
            (Inl e, s1) \<Rightarrow> (Some e, self1, s1)
          | (Inr h, s1) \<Rightarrow>
              (case
                 (case checked_call H h call_name call_obj s1 of
                    (Inl e, s2) \<Rightarrow> (Some e, self1, s2)
                  | (Inr res, s2) \<Rightarrow>
                      (case getitem res ''UID'' of
                         Inl e \<Rightarrow> (Some e, self1, s2)
                       | Inr u \<Rightarrow> (None, self1\<lparr>uid := Attr u, handle := Attr (Some h)\<rparr>, s2)))
               of (pending, self2, s2) \<Rightarrow>
                 if handle self2 = Attr None then
                   (case close H h s2 of
                      (Some e, s3) \<Rightarrow> (Some e, self2, s3)
                    | (None, s3) \<Rightarrow> (pending, self2, s3))
                 else (pending, self2, s2)))))"

text \<open>
  The expression \<open>Env(spec, container, chrome_host, game_host)\<close>: a fresh object with
  no attribute goes through \<open>__init__\<close>; the caller receives the object only when
  \<open>__init__\<close> returns, and the exception otherwise.
\<close>

definition Env_new ::
  "('h, 'w) Handle_class \<Rightarrow> pyval \<Rightarrow> pyval \<Rightarrow> pyval \<Rightarrow> pyval \<Rightarrow> ('h, 'w) sys
     \<Rightarrow> (exn + 'h Env) \<times> ('h, 'w) sys" where
  "Env_new H spec container chrome_host game_host s =
     (case Env_init H \<lparr>handle = Unset, uid = Unset\<rparr> spec container chrome_host game_host s of
        (None, self, s') \<Rightarrow> (Inr self, s')
      | (Some e, self, s') \<Rightarrow> (Inl e, s'))"

text \<open>
  \<open>Env.reset(self)\<close>, line 52. Python evaluates \<open>self.handle.checked_call\<close> first, then
  the argument \<open>{'UID': self.uid}\<close>, then calls. The method has no \<open>return\<close> statement:
  when the call returns, its result is dropped and the method returns \<open>None\<close>.
\<close>

definition Env_reset ::
  "('h, 'w) Handle_class \<Rightarrow> 'h Env \<Rightarrow> ('h, 'w) sys \<Rightarrow> (exn + pyval) \<times> ('h, 'w) sys" where
  "Env_reset H self s =
     (case handle self of
        Unset \<Rightarrow> (Inl (AttributeError ''handle''), s)
      | Attr None \<Rightarrow> (Inl (AttributeError ''checked_call''), s)
      | Attr (Some h) \<Rightarrow>
          (case uid self of
             Unset \<Rightarrow> (Inl (AttributeError ''uid''), s)
           | Attr u \<Rightarrow>
               (case checked_call H h ''Reset'' [(''UID'', u)] s of
                  (Inl e, s1) \<Rightarrow> (Inl e, s1)
                | (Inr res, s1) \<Rightarrow> (Inr PNone, s1))))"

text \<open>
  \<open>Env.close(self)\<close>, lines 60 to 63: the \<open>try\<close> body is the \<open>CloseEnv\<close> call, the
  \<open>finally\<close> block is \<open>self.handle.close()\<close>, which runs whatever the body did. The
  result is the exception that leaves the method (\<open>None\<close> when it returns) and the
  system afterwards; the method assigns no attribute.
\<close>

definition Env_close ::
  "('h, 'w) Handle_class \<Rightarrow> 'h Env \<Rightarrow> ('h, 'w) sys \<Rightarrow> exn option \<times> ('h, 'w) sys" where
  "Env_close H self s =
     (case handle self of
        Unset \<Rightarrow> (Some (AttributeError ''handle''), s)
      | Attr None \<Rightarrow> (Some (AttributeError ''close''), s)
      | Attr (Some h) \<Rightarrow>
          (case
             (case uid self of
                Unset \<Rightarrow> (Some (AttributeError ''uid''), s)
              | Attr u \<Rightarrow>
                  (case checked_call H h ''CloseEnv'' [(''UID'', u)] s of
                     (Inl e, s1) \<Rightarrow> (Some e, s1)
                   | (Inr res, s1) \<Rightarrow> (None, s1)))
           of (pending, s1) \<Rightarrow>
             (case close H h s1 of
                (Some e, s2) \<Rightarrow> (Some e, s2)
              | (None, s2) \<Rightarrow> (pending, s2))))"

subsection \<open>A scripted backend\<close>

text \<open>
  A double of the \<open>Handle\<close> class for the concrete instances below: the world is the
  list of answers the backend will give, \<open>checked_call\<close> consumes one answer per call
  (and raises when none is left), the constructor returns the handle \<open>0\<close> and
  \<open>close()\<close> returns.
\<close>

definition Scripted :: "(nat, (exn + pyval) list) Handle_class" where
  "Scripted =
     \<lparr>Handle_init = (\<lambda>w. (Inr 0, w)),
      Handle_checked_call =
        (\<lambda>h name args w. case w of [] \<Rightarrow> (Inl (OtherError ''closed''), []) | r # rs \<Rightarrow> (r, rs)),
      Handle_close = (\<lambda>h w. (None, w))\<rparr>"

definition script :: "(exn + pyval) list \<Rightarrow> (nat, (exn + pyval) list) sys" where
  "script rs = \<lparr>backend = rs, trace = []\<rparr>"

text \<open>
  A second double, for an installation without the backend executable: the
  constructor \<open>Handle()\<close> raises. The docstring of \<open>Env.__init__\<close> names this case
  ("This may raise an exception if a muniverse-bind process cannot be started").
\<close>

definition Unstartable :: "(nat, (exn + pyval) list) Handle_class" where
  "Unstartable =
     \<lparr>Handle_init = (\<lambda>w. (Inl (OtherError ''muniverse-bind not found''), w)),
      Handle_checked_call =
        (\<lambda>h name args w. case w of [] \<Rightarrow> (Inl (OtherError ''closed''), []) | r # rs \<Rightarrow> (r, rs)),
      Handle_close = (\<lambda>h w. (None, w))\<rparr>"

section \<open>Properties\<close>

subsection \<open>Auxiliary facts\<close>

lemma calls_append: "calls (xs @ ys) = calls xs @ calls ys"
  by (induction xs rule: calls.induct) simp_all

lemma closes_append: "closes (xs @ ys) = closes xs @ closes ys"
  by (induction xs rule: closes.induct) simp_all

lemma Handle_eq:
  "Handle_init H (backend s) = (r, w) \<Longrightarrow>
   Handle H s = (r, \<lparr>backend = w, trace = trace s @ [Construct]\<rparr>)"
  by (simp add: Handle_def)

lemma checked_call_eq:
  "Handle_checked_call H h name args (backend s) = (r, w) \<Longrightarrow>
   checked_call H h name args s = (r, \<lparr>backend = w, trace = trace s @ [Call h name args]\<rparr>)"
  by (simp add: checked_call_def)

lemma close_eq:
  "Handle_close H h (backend s) = (c, w) \<Longrightarrow>
   close H h s = (c, \<lparr>backend = w, trace = trace s @ [Close h]\<rparr>)"
  by (simp add: close_def)

text \<open>
  What \<open>__init__\<close> does once its arguments have passed the two tests and \<open>Handle()\<close>
  has returned the handle \<open>h\<close>: one call; then either the call raised or its result
  has no \<open>'UID'\<close> (the handle is closed, \<open>self.handle\<close> stays \<open>None\<close>), or the UID is
  stored and the handle kept.
\<close>

lemma Env_init_valid:
  assumes "(chrome_host = PNone) = (game_host = PNone)"
    and "container = PNone \<or> chrome_host = PNone"
    and "build_call spec container chrome_host game_host = (name, args)"
    and "Handle_init H (backend s) = (Inr h, w1)"
    and "Handle_checked_call H h name args w1 = (r, w2)"
    and "Handle_close H h w2 = (c, w3)"
  shows "Env_init H self spec container chrome_host game_host s =
     (case (case r of Inl e \<Rightarrow> Inl e | Inr res \<Rightarrow> getitem res ''UID'') of
        Inl e \<Rightarrow>
          (Some (case c of None \<Rightarrow> e | Some e' \<Rightarrow> e'), self\<lparr>handle := Attr None\<rparr>,
           \<lparr>backend = w3, trace = trace s @ [Construct, Call h name args, Close h]\<rparr>)
      | Inr u \<Rightarrow>
          (None, self\<lparr>handle := Attr (Some h), uid := Attr u\<rparr>,
           \<lparr>backend = w2, trace = trace s @ [Construct, Call h name args]\<rparr>))"
  using assms
  by (auto simp add: Env_init_def Handle_eq checked_call_eq close_eq
      split: sum.splits option.splits)

text \<open>
  And what it does when \<open>Handle()\<close> raises: line 40 is outside the \<open>try\<close>, so the exception
  leaves \<open>__init__\<close> with \<open>self.handle\<close> assigned \<open>None\<close> and nothing else done.
\<close>

lemma Env_init_Handle_raises:
  assumes "(chrome_host = PNone) = (game_host = PNone)"
    and "container = PNone \<or> chrome_host = PNone"
    and "Handle_init H (backend s) = (Inl e, w1)"
  shows "Env_init H self spec container chrome_host game_host s =
           (Some e, self\<lparr>handle := Attr None\<rparr>, \<lparr>backend = w1, trace = trace s @ [Construct]\<rparr>)"
  using assms by (auto simp add: Env_init_def Handle_eq split: prod.splits)

lemma Env_new_valid:
  assumes "(chrome_host = PNone) = (game_host = PNone)"
    and "container = PNone \<or> chrome_host = PNone"
    and "build_call spec container chrome_host game_host = (name, args)"
    and "Handle_init H (backend s) = (hr, w1)"
  shows "Env_new H spec container chrome_host game_host s =
     (case hr of
        Inl e \<Rightarrow> (Inl e, \<lparr>backend = w1, trace = trace s @ [Construct]\<rparr>)
      | Inr h \<Rightarrow>
          (case Handle_checked_call H h name args w1 of (r, w2) \<Rightarrow>
             (case (case r of Inl e \<Rightarrow> Inl e | Inr res \<Rightarrow> getitem res ''UID'') of
                Inl e \<Rightarrow>
                  (case Handle_close H h w2 of (c, w3) \<Rightarrow>
                     (Inl (case c of None \<Rightarrow> e | Some e' \<Rightarrow> e'),
                      \<lparr>backend = w3, trace = trace s @ [Construct, Call h name args, Close h]\<rparr>))
              | Inr u \<Rightarrow>
                  (Inr \<lparr>handle = Attr (Some h), uid = Attr u\<rparr>,
                   \<lparr>backend = w2, trace = trace s @ [Construct, Call h name args]\<rparr>))))"
proof (cases hr)
  case (Inl e)
  then show ?thesis
    using Env_init_Handle_raises [OF assms(1,2), of H s e w1 "\<lparr>handle = Unset, uid = Unset\<rparr>" spec] assms(4)
    by (simp add: Env_new_def)
next
  case (Inr h)
  obtain r w2 where call: "Handle_checked_call H h name args w1 = (r, w2)"
    by (cases "Handle_checked_call H h name args w1")
  obtain c w3 where cl: "Handle_close H h w2 = (c, w3)"
    by (cases "Handle_close H h w2")
  have new: "Handle_init H (backend s) = (Inr h, w1)"
    using assms(4) Inr by simp
  show ?thesis
    using Env_init_valid [OF assms(1-3) new call cl, of "\<lparr>handle = Unset, uid = Unset\<rparr>"] Inr
    by (simp add: Env_new_def call cl split: sum.splits)
qed

text \<open>
  What \<open>close\<close> does on an object whose \<open>handle\<close> is a handle and whose \<open>uid\<close> is set:
  the \<open>CloseEnv\<close> call, then the handle's \<open>close()\<close> on whatever world the call left.
\<close>

lemma Env_close_live:
  assumes "handle self = Attr (Some h)" and "uid self = Attr u"
    and "Handle_checked_call H h ''CloseEnv'' [(''UID'', u)] (backend s) = (r, w1)"
    and "Handle_close H h w1 = (c, w2)"
  shows "Env_close H self s =
           (case c of Some e' \<Rightarrow> Some e' | None \<Rightarrow> (case r of Inl e \<Rightarrow> Some e | Inr res \<Rightarrow> None),
            \<lparr>backend = w2, trace = trace s @ [Call h ''CloseEnv'' [(''UID'', u)], Close h]\<rparr>)"
  using assms
  by (auto simp add: Env_close_def checked_call_eq close_eq split: sum.splits option.splits)

subsection \<open>Argument validation\<close>

text \<open>
  C3. When exactly one of \<open>chrome_host\<close> and \<open>game_host\<close> is supplied, the constructor
  raises \<open>ValueError\<close> at once: \<open>self\<close> has no attribute assigned, no \<open>Handle\<close> has been
  constructed and nothing has been invoked on one, since the system (backend and trace)
  is the one the constructor started from.
\<close>

theorem Env_one_host_ValueError:
  assumes "(chrome_host = PNone) \<noteq> (game_host = PNone)"
  shows "Env_init H self spec container chrome_host game_host s =
           (Some (ValueError ''must set both chrome_host and game_host''), self, s)
       \<and> Env_new H spec container chrome_host game_host s =
           (Inl (ValueError ''must set both chrome_host and game_host''), s)"
  using assms by (simp add: Env_init_def Env_new_def)

theorem Env_one_host_ValueError_witness:
  "Env_new Scripted (PStr ''X'') PNone (PStr ''h'') PNone (script [Inr (PDict [(''UID'', PStr ''42'')])])
     = (Inl (ValueError ''must set both chrome_host and game_host''),
        script [Inr (PDict [(''UID'', PStr ''42'')])])
   \<and> Env_new Scripted (PStr ''X'') PNone PNone (PStr ''g'') (script [])
     = (Inl (ValueError ''must set both chrome_host and game_host''), script [])"
  using Env_one_host_ValueError [of "PStr ''h''" PNone Scripted _ "PStr ''X''" PNone
          "script [Inr (PDict [(''UID'', PStr ''42'')])]"]
        Env_one_host_ValueError [of PNone "PStr ''g''" Scripted _ "PStr ''X''" PNone "script []"]
  by simp

text \<open>
  C4. When both a container and a \<open>chrome_host\<close> are supplied, the constructor raises
  \<open>ValueError\<close> before line 39: no attribute is assigned, no \<open>Handle\<close> is constructed
  and nothing reaches a transport (the system is unchanged). The message is the one
  of line 29 when \<open>game_host\<close> is supplied too, and the one of line 27 (the first test)
  when it is not.
\<close>

theorem Env_both_container_and_host_ValueError:
  assumes "container \<noteq> PNone" and "chrome_host \<noteq> PNone"
  shows "Env_init H self spec container chrome_host game_host s =
           (Some (ValueError (if game_host = PNone
                              then ''must set both chrome_host and game_host''
                              else ''cannot mix chrome_host and container options'')), self, s)
       \<and> Env_new H spec container chrome_host game_host s =
           (Inl (ValueError (if game_host = PNone
                             then ''must set both chrome_host and game_host''
                             else ''cannot mix chrome_host and container options'')), s)"
  using assms by (simp add: Env_init_def Env_new_def)

theorem Env_both_container_and_host_ValueError_witness:
  "Env_new Scripted (PStr ''X'') (PDict []) (PStr ''h'') (PStr ''g'') (script [Inr (PDict [])])
     = (Inl (ValueError ''cannot mix chrome_host and container options''), script [Inr (PDict [])])
   \<and> Env_new Scripted (PStr ''X'') (PDict []) (PStr ''h'') PNone (script [Inr (PDict [])])
     = (Inl (ValueError ''must set both chrome_host and game_host''), script [Inr (PDict [])])"
  using Env_both_container_and_host_ValueError
          [of "PDict []" "PStr ''h''" Scripted _ "PStr ''X''" "PStr ''g''" "script [Inr (PDict [])]"]
        Env_both_container_and_host_ValueError
          [of "PDict []" "PStr ''h''" Scripted _ "PStr ''X''" PNone "script [Inr (PDict [])]"]
  by simp

subsection \<open>The create call\<close>

text \<open>
  C5, as the claim has it, at a concrete input: the configuration is valid (no
  container, no hosts) and \<open>Handle()\<close> raises at line 40, outside the \<open>try\<close>. The
  exception leaves the constructor, the backend is untouched and the constructor has
  issued no call at all, where the claim has exactly one \<open>NewEnv\<close> call.
\<close>

theorem Env_create_no_call_without_handle_counterexample:
  "Env_new Unstartable (PStr ''X'') PNone PNone PNone (script [Inr (PDict [(''UID'', PStr ''42'')])])
     = (Inl (OtherError ''muniverse-bind not found''),
        \<lparr>backend = [Inr (PDict [(''UID'', PStr ''42'')])], trace = [Construct]\<rparr>)
   \<and> calls (trace (snd (Env_new Unstartable (PStr ''X'') PNone PNone PNone
              (script [Inr (PDict [(''UID'', PStr ''42'')])])))) = []
   \<and> calls (trace (snd (Env_new Unstartable (PStr ''X'') PNone PNone PNone
              (script [Inr (PDict [(''UID'', PStr ''42'')])]))))
       \<noteq> [(''NewEnv'', [(''Spec'', PStr ''X'')])]"
  by (simp add: Env_new_def Env_init_def build_call_def Handle_def Unstartable_def script_def)

text \<open>
  C5, amended. For every valid configuration (the three cases of the hypothesis are
  all of them, each with the name and the arguments the table gives it, the value
  under \<open>Spec\<close> being the \<open>spec\<close> argument itself): when \<open>Handle()\<close> raises, its
  exception leaves the constructor and no call is issued; when \<open>Handle()\<close> returns a
  handle, the constructor applies \<open>checked_call\<close> to that handle exactly once, with
  that name and exactly those arguments, and what follows is decided by the answer:
  the UID is stored and the handle kept, or the handle is closed and the exception
  leaves. The calls of the trace grow by that one entry, or by none when \<open>Handle()\<close>
  raised.
\<close>

theorem Env_create_call_follows_table:
  assumes "(container = PNone \<and> chrome_host = PNone \<and> game_host = PNone
              \<and> name = ''NewEnv'' \<and> args = [(''Spec'', spec)])
         \<or> (container \<noteq> PNone \<and> chrome_host = PNone \<and> game_host = PNone
              \<and> name = ''NewEnvContainer'' \<and> args = [(''Spec'', spec), (''Container'', container)])
         \<or> (container = PNone \<and> chrome_host \<noteq> PNone \<and> game_host \<noteq> PNone
              \<and> name = ''NewEnvChrome''
              \<and> args = [(''Spec'', spec), (''Host'', chrome_host), (''GameHost'', game_host)])"
    and "Handle_init H (backend s) = (hr, w1)"
  shows "Env_new H spec container chrome_host game_host s =
     (case hr of
        Inl e \<Rightarrow> (Inl e, \<lparr>backend = w1, trace = trace s @ [Construct]\<rparr>)
      | Inr h \<Rightarrow>
          (case Handle_checked_call H h name args w1 of (r, w2) \<Rightarrow>
             (case (case r of Inl e \<Rightarrow> Inl e | Inr res \<Rightarrow> getitem res ''UID'') of
                Inl e \<Rightarrow>
                  (case Handle_close H h w2 of (c, w3) \<Rightarrow>
                     (Inl (case c of None \<Rightarrow> e | Some e' \<Rightarrow> e'),
                      \<lparr>backend = w3, trace = trace s @ [Construct, Call h name args, Close h]\<rparr>))
              | Inr u \<Rightarrow>
                  (Inr \<lparr>handle = Attr (Some h), uid = Attr u\<rparr>,
                   \<lparr>backend = w2, trace = trace s @ [Construct, Call h name args]\<rparr>))))
   \<and> calls (trace (snd (Env_new H spec container chrome_host game_host s))) =
       calls (trace s) @ (case hr of Inl e \<Rightarrow> [] | Inr h \<Rightarrow> [(name, args)])"
proof -
  have valid: "(chrome_host = PNone) = (game_host = PNone)" "container = PNone \<or> chrome_host = PNone"
    using assms(1) by auto
  have bc: "build_call spec container chrome_host game_host = (name, args)"
    using assms(1) by (auto simp add: build_call_def)
  note eq = Env_new_valid [OF valid bc assms(2)]
  show ?thesis
  proof (rule conjI)
    show "calls (trace (snd (Env_new H spec container chrome_host game_host s))) =
            calls (trace s) @ (case hr of Inl e \<Rightarrow> [] | Inr h \<Rightarrow> [(name, args)])"
      by (simp add: eq calls_append split: sum.splits prod.splits)
  qed (rule eq)
qed

theorem Env_create_call_follows_table_witness:
  "Env_new Scripted (PStr ''X'') PNone PNone PNone (script [Inr (PDict [(''UID'', PStr ''42'')])])
     = (Inr \<lparr>handle = Attr (Some 0), uid = Attr (PStr ''42'')\<rparr>,
        \<lparr>backend = [], trace = [Construct, Call 0 ''NewEnv'' [(''Spec'', PStr ''X'')]]\<rparr>)
   \<and> Env_new Scripted (PStr ''X'') (PStr ''img'') PNone PNone
        (script [Inr (PDict [(''UID'', PStr ''42'')])])
     = (Inr \<lparr>handle = Attr (Some 0), uid = Attr (PStr ''42'')\<rparr>,
        \<lparr>backend = [],
         trace = [Construct,
                  Call 0 ''NewEnvContainer'' [(''Spec'', PStr ''X''), (''Container'', PStr ''img'')]]\<rparr>)
   \<and> Env_new Scripted (PStr ''X'') PNone (PStr ''h'') (PStr ''g'')
        (script [Inr (PDict [(''UID'', PStr ''42'')])])
     = (Inr \<lparr>handle = Attr (Some 0), uid = Attr (PStr ''42'')\<rparr>,
        \<lparr>backend = [],
         trace = [Construct,
                  Call 0 ''NewEnvChrome''
                    [(''Spec'', PStr ''X''), (''Host'', PStr ''h''), (''GameHost'', PStr ''g'')]]\<rparr>)
   \<and> Env_new Unstartable (PStr ''X'') PNone PNone PNone
        (script [Inr (PDict [(''UID'', PStr ''42'')])])
     = (Inl (OtherError ''muniverse-bind not found''),
        \<lparr>backend = [Inr (PDict [(''UID'', PStr ''42'')])], trace = [Construct]\<rparr>)"
proof -
  let ?s = "script [Inr (PDict [(''UID'', PStr ''42'')])]"
  have new: "Handle_init Scripted (backend ?s) = (Inr 0, [Inr (PDict [(''UID'', PStr ''42'')])])"
    by (simp add: Scripted_def script_def)
  have new': "Handle_init Unstartable (backend ?s) =
      (Inl (OtherError ''muniverse-bind not found''), [Inr (PDict [(''UID'', PStr ''42'')])])"
    by (simp add: Unstartable_def script_def)
  show ?thesis
    using Env_create_call_follows_table
            [OF _ new, of PNone PNone PNone "''NewEnv''" "[(''Spec'', PStr ''X'')]" "PStr ''X''"]
          Env_create_call_follows_table
            [OF _ new, of "PStr ''img''" PNone PNone "''NewEnvContainer''"
                "[(''Spec'', PStr ''X''), (''Container'', PStr ''img'')]" "PStr ''X''"]
          Env_create_call_follows_table
            [OF _ new, of PNone "PStr ''h''" "PStr ''g''" "''NewEnvChrome''"
                "[(''Spec'', PStr ''X''), (''Host'', PStr ''h''), (''GameHost'', PStr ''g'')]" "PStr ''X''"]
          Env_create_call_follows_table
            [OF _ new', of PNone PNone PNone "''NewEnv''" "[(''Spec'', PStr ''X'')]" "PStr ''X''"]
    by (simp add: Scripted_def script_def)
qed

text \<open>
  C6. When the create call returns a mapping that holds a \<open>UID\<close>, the constructor
  returns an object whose \<open>uid\<close> is exactly that value and whose \<open>handle\<close> is the handle
  the call went through (the state the design calls Live); the trace ends with the
  call, so the \<open>finally\<close> block has not closed the handle: the handles closed in the
  trace are those closed before.
\<close>

theorem Env_create_success_keeps_handle:
  assumes "(chrome_host = PNone) = (game_host = PNone)"
    and "container = PNone \<or> chrome_host = PNone"
    and "build_call spec container chrome_host game_host = (name, args)"
    and "Handle_init H (backend s) = (Inr h, w1)"
    and "Handle_checked_call H h name args w1 = (Inr (PDict d), w2)"
    and "map_of d ''UID'' = Some u"
  shows "Env_new H spec container chrome_host game_host s =
           (Inr \<lparr>handle = Attr (Some h), uid = Attr u\<rparr>,
            \<lparr>backend = w2, trace = trace s @ [Construct, Call h name args]\<rparr>)
       \<and> closes (trace (snd (Env_new H spec container chrome_host game_host s))) =
           closes (trace s)"
proof -
  obtain c w3 where cl: "Handle_close H h w2 = (c, w3)"
    by (cases "Handle_close H h w2")
  show ?thesis
    using Env_init_valid [OF assms(1-5) cl, of "\<lparr>handle = Unset, uid = Unset\<rparr>"] assms(6)
    by (simp add: Env_new_def closes_append)
qed

theorem Env_create_success_keeps_handle_witness:
  "Env_new Scripted (PStr ''X'') PNone PNone PNone (script [Inr (PDict [(''UID'', PStr ''42'')])])
     = (Inr \<lparr>handle = Attr (Some 0), uid = Attr (PStr ''42'')\<rparr>,
        \<lparr>backend = [], trace = [Construct, Call 0 ''NewEnv'' [(''Spec'', PStr ''X'')]]\<rparr>)"
  using Env_create_success_keeps_handle
          [of PNone PNone PNone "PStr ''X''" "''NewEnv''" "[(''Spec'', PStr ''X'')]" Scripted
              "script [Inr (PDict [(''UID'', PStr ''42'')])]" 0
              "[Inr (PDict [(''UID'', PStr ''42'')])]" "[(''UID'', PStr ''42'')]" "[]" "PStr ''42''"]
  by (simp add: build_call_def Scripted_def script_def)

text \<open>
  C1. When the create call raises (a \<open>MuniverseError\<close> for a failure the backend
  reports, any other exception when the call cannot complete), the \<open>finally\<close> block
  invokes \<open>close()\<close> on the handle, once and after the call, before an exception
  leaves the constructor: the call's exception (or, should that \<open>close()\<close> itself raise,
  the one it raised). \<open>self.handle\<close> is still \<open>None\<close>, \<open>self.uid\<close> was never assigned,
  and the caller receives an exception and no \<open>Env\<close> object.
\<close>

theorem Env_create_failure_closes_handle:
  assumes "(chrome_host = PNone) = (game_host = PNone)"
    and "container = PNone \<or> chrome_host = PNone"
    and "build_call spec container chrome_host game_host = (name, args)"
    and "Handle_init H (backend s) = (Inr h, w1)"
    and "Handle_checked_call H h name args w1 = (Inl e, w2)"
    and "Handle_close H h w2 = (c, w3)"
  shows "Env_init H self spec container chrome_host game_host s =
           (Some (case c of None \<Rightarrow> e | Some e' \<Rightarrow> e'), self\<lparr>handle := Attr None\<rparr>,
            \<lparr>backend = w3, trace = trace s @ [Construct, Call h name args, Close h]\<rparr>)
       \<and> Env_new H spec container chrome_host game_host s =
           (Inl (case c of None \<Rightarrow> e | Some e' \<Rightarrow> e'),
            \<lparr>backend = w3, trace = trace s @ [Construct, Call h name args, Close h]\<rparr>)"
  using Env_init_valid [OF assms] by (simp add: Env_new_def)

theorem Env_create_failure_closes_handle_witness:
  "Env_new Scripted (PStr ''X'') PNone PNone PNone (script [Inl (MuniverseError ''unknown spec'')])
     = (Inl (MuniverseError ''unknown spec''),
        \<lparr>backend = [],
         trace = [Construct, Call 0 ''NewEnv'' [(''Spec'', PStr ''X'')], Close 0]\<rparr>)"
  using Env_create_failure_closes_handle
          [of PNone PNone PNone "PStr ''X''" "''NewEnv''" "[(''Spec'', PStr ''X'')]" Scripted
              "script [Inl (MuniverseError ''unknown spec'')]" 0 "[Inl (MuniverseError ''unknown spec'')]"
              "MuniverseError ''unknown spec''" "[]" None "[]"]
  by (simp add: build_call_def Scripted_def script_def)

text \<open>
  C10. When the create call returns a mapping without the key \<open>UID\<close>, the subscript
  of line 42 raises \<open>KeyError('UID')\<close>, a lookup error of the client and not a
  \<open>MuniverseError\<close>; the assignments are skipped, so the \<open>finally\<close> block finds
  \<open>self.handle\<close> still \<open>None\<close> and invokes \<open>close()\<close> on the handle before the
  \<open>KeyError\<close> leaves the constructor (should that \<open>close()\<close> itself raise, its exception
  leaves instead).
\<close>

theorem Env_create_missing_UID_closes_handle:
  assumes "(chrome_host = PNone) = (game_host = PNone)"
    and "container = PNone \<or> chrome_host = PNone"
    and "build_call spec container chrome_host game_host = (name, args)"
    and "Handle_init H (backend s) = (Inr h, w1)"
    and "Handle_checked_call H h name args w1 = (Inr (PDict d), w2)"
    and "Handle_close H h w2 = (c, w3)"
    and "map_of d ''UID'' = None"
  shows "Env_init H self spec container chrome_host game_host s =
           (Some (case c of None \<Rightarrow> KeyError ''UID'' | Some e' \<Rightarrow> e'),
            self\<lparr>handle := Attr None\<rparr>,
            \<lparr>backend = w3, trace = trace s @ [Construct, Call h name args, Close h]\<rparr>)
       \<and> Env_new H spec container chrome_host game_host s =
           (Inl (case c of None \<Rightarrow> KeyError ''UID'' | Some e' \<Rightarrow> e'),
            \<lparr>backend = w3, trace = trace s @ [Construct, Call h name args, Close h]\<rparr>)"
  using Env_init_valid [OF assms(1-6)] assms(7) by (simp add: Env_new_def)

theorem Env_create_missing_UID_closes_handle_witness:
  "Env_new Scripted (PStr ''X'') PNone PNone PNone (script [Inr (PDict [(''Other'', PInt 1)])])
     = (Inl (KeyError ''UID''),
        \<lparr>backend = [], trace = [Construct, Call 0 ''NewEnv'' [(''Spec'', PStr ''X'')], Close 0]\<rparr>)"
  using Env_create_missing_UID_closes_handle
          [of PNone PNone PNone "PStr ''X''" "''NewEnv''" "[(''Spec'', PStr ''X'')]" Scripted
              "script [Inr (PDict [(''Other'', PInt 1)])]" 0
              "[Inr (PDict [(''Other'', PInt 1)])]" "[(''Other'', PInt 1)]" "[]" None "[]"]
  by (simp add: build_call_def Scripted_def script_def)

subsection \<open>Reset\<close>

text \<open>
  C7, as the claim has it, at a concrete input: the \<open>Reset\<close> call returns a mapping
  (one with an entry, then the empty one) and \<open>reset\<close> returns \<open>None\<close>, which is not
  what the call returned.
\<close>

theorem Env_reset_drops_result_counterexample:
  "fst (Env_reset Scripted \<lparr>handle = Attr (Some 0), uid = Attr (PStr ''42'')\<rparr>
          (script [Inr (PDict [(''Observation'', PInt 7)])])) = Inr PNone
   \<and> fst (checked_call Scripted 0 ''Reset'' [(''UID'', PStr ''42'')]
          (script [Inr (PDict [(''Observation'', PInt 7)])]))
       = Inr (PDict [(''Observation'', PInt 7)])
   \<and> fst (Env_reset Scripted \<lparr>handle = Attr (Some 0), uid = Attr (PStr ''42'')\<rparr>
          (script [Inr (PDict [(''Observation'', PInt 7)])]))
       \<noteq> fst (checked_call Scripted 0 ''Reset'' [(''UID'', PStr ''42'')]
              (script [Inr (PDict [(''Observation'', PInt 7)])]))
   \<and> fst (Env_reset Scripted \<lparr>handle = Attr (Some 0), uid = Attr (PStr ''42'')\<rparr>
          (script [Inr (PDict [])]))
       \<noteq> fst (checked_call Scripted 0 ''Reset'' [(''UID'', PStr ''42'')] (script [Inr (PDict [])]))"
  by (simp add: Env_reset_def checked_call_def Scripted_def script_def)

text \<open>
  C7, amended. On an object whose \<open>handle\<close> is a handle and whose \<open>uid\<close> is set,
  \<open>reset\<close> issues exactly one call, with the name \<open>Reset\<close> and the arguments
  \<open>{'UID': self.uid}\<close>, the UID being the one stored at creation. An exception raised
  by the call leaves \<open>reset\<close> unchanged; a result returned by the call is dropped and
  \<open>reset\<close> returns \<open>None\<close>.
\<close>

theorem Env_reset_issues_Reset_call:
  assumes "handle self = Attr (Some h)" and "uid self = Attr u"
    and "Handle_checked_call H h ''Reset'' [(''UID'', u)] (backend s) = (r, w1)"
  shows "Env_reset H self s =
           (case r of Inl e \<Rightarrow> Inl e | Inr res \<Rightarrow> Inr PNone,
            \<lparr>backend = w1, trace = trace s @ [Call h ''Reset'' [(''UID'', u)]]\<rparr>)"
  using assms by (auto simp add: Env_reset_def checked_call_eq split: sum.splits)

theorem Env_reset_issues_Reset_call_witness:
  "Env_reset Scripted \<lparr>handle = Attr (Some 0), uid = Attr (PStr ''42'')\<rparr>
      (script [Inr (PDict [(''Observation'', PInt 7)])])
     = (Inr PNone, \<lparr>backend = [], trace = [Call 0 ''Reset'' [(''UID'', PStr ''42'')]]\<rparr>)
   \<and> Env_reset Scripted \<lparr>handle = Attr (Some 0), uid = Attr (PStr ''42'')\<rparr>
      (script [Inl (MuniverseError ''no such environment'')])
     = (Inl (MuniverseError ''no such environment''),
        \<lparr>backend = [], trace = [Call 0 ''Reset'' [(''UID'', PStr ''42'')]]\<rparr>)"
  using Env_reset_issues_Reset_call
          [of "\<lparr>handle = Attr (Some 0), uid = Attr (PStr ''42'')\<rparr>" 0 "PStr ''42''" Scripted
              "script [Inr (PDict [(''Observation'', PInt 7)])]"
              "Inr (PDict [(''Observation'', PInt 7)])" "[]"]
        Env_reset_issues_Reset_call
          [of "\<lparr>handle = Attr (Some 0), uid = Attr (PStr ''42'')\<rparr>" 0 "PStr ''42''" Scripted
              "script [Inl (MuniverseError ''no such environment'')]"
              "Inl (MuniverseError ''no such environment'')" "[]"]
  by (simp add: Scripted_def script_def)

subsection \<open>Close\<close>

text \<open>
  C2. On an object whose \<open>handle\<close> is a handle and whose \<open>uid\<close> is set, \<open>close\<close>
  issues the \<open>CloseEnv\<close> call and then, whether that call returned or raised (\<open>r\<close> is
  either), invokes the handle's \<open>close()\<close>: the trace grows by the call followed by
  one \<open>Close\<close>, and the handles closed grow by exactly this one. The exception that
  leaves \<open>close\<close>, if any, is the call's, or the one of the handle's \<open>close()\<close> when
  that raises.
\<close>

theorem Env_close_releases_handle_once:
  assumes "handle self = Attr (Some h)" and "uid self = Attr u"
    and "Handle_checked_call H h ''CloseEnv'' [(''UID'', u)] (backend s) = (r, w1)"
    and "Handle_close H h w1 = (c, w2)"
  shows "Env_close H self s =
           (case c of Some e' \<Rightarrow> Some e' | None \<Rightarrow> (case r of Inl e \<Rightarrow> Some e | Inr res \<Rightarrow> None),
            \<lparr>backend = w2, trace = trace s @ [Call h ''CloseEnv'' [(''UID'', u)], Close h]\<rparr>)
       \<and> closes (trace (snd (Env_close H self s))) = closes (trace s) @ [h]"
  using Env_close_live [OF assms] by (simp add: closes_append)

theorem Env_close_releases_handle_once_witness:
  "Env_close Scripted \<lparr>handle = Attr (Some 0), uid = Attr (PStr ''42'')\<rparr> (script [Inr (PDict [])])
     = (None, \<lparr>backend = [], trace = [Call 0 ''CloseEnv'' [(''UID'', PStr ''42'')], Close 0]\<rparr>)
   \<and> Env_close Scripted \<lparr>handle = Attr (Some 0), uid = Attr (PStr ''42'')\<rparr>
        (script [Inl (MuniverseError ''no such environment'')])
     = (Some (MuniverseError ''no such environment''),
        \<lparr>backend = [], trace = [Call 0 ''CloseEnv'' [(''UID'', PStr ''42'')], Close 0]\<rparr>)"
  using Env_close_releases_handle_once
          [of "\<lparr>handle = Attr (Some 0), uid = Attr (PStr ''42'')\<rparr>" 0 "PStr ''42''" Scripted
              "script [Inr (PDict [])]" "Inr (PDict [])" "[]" None "[]"]
        Env_close_releases_handle_once
          [of "\<lparr>handle = Attr (Some 0), uid = Attr (PStr ''42'')\<rparr>" 0 "PStr ''42''" Scripted
              "script [Inl (MuniverseError ''no such environment'')]"
              "Inl (MuniverseError ''no such environment'')" "[]" None "[]"]
  by (simp add: Scripted_def script_def)

text \<open>
  C8. \<open>close\<close> reads \<open>self.handle\<close> and \<open>self.uid\<close>, assigns neither and tests no
  state of its own. Called a second time on the same object, it is not rejected
  locally: it applies \<open>checked_call\<close> with \<open>CloseEnv\<close> and the same UID to the backend
  as the first \<open>close\<close> left it, then the handle's \<open>close()\<close> again, and what the
  second \<open>close\<close> returns or raises is what these two operations of the handle
  answer (\<open>r2\<close>, \<open>c2\<close>).
\<close>

theorem Env_double_close_not_guarded:
  assumes "handle self = Attr (Some h)" and "uid self = Attr u"
    and "Handle_checked_call H h ''CloseEnv'' [(''UID'', u)] (backend s) = (r1, w1)"
    and "Handle_close H h w1 = (c1, w2)"
    and "Handle_checked_call H h ''CloseEnv'' [(''UID'', u)] w2 = (r2, w3)"
    and "Handle_close H h w3 = (c2, w4)"
  shows "Env_close H self (snd (Env_close H self s)) =
           (case c2 of Some e' \<Rightarrow> Some e' | None \<Rightarrow> (case r2 of Inl e \<Rightarrow> Some e | Inr res \<Rightarrow> None),
            \<lparr>backend = w4,
             trace = trace s @ [Call h ''CloseEnv'' [(''UID'', u)], Close h,
                                Call h ''CloseEnv'' [(''UID'', u)], Close h]\<rparr>)"
proof -
  let ?s1 = "\<lparr>backend = w2, trace = trace s @ [Call h ''CloseEnv'' [(''UID'', u)], Close h]\<rparr>"
  have first: "snd (Env_close H self s) = ?s1"
    using Env_close_live [OF assms(1-4)] by simp
  have call2: "Handle_checked_call H h ''CloseEnv'' [(''UID'', u)] (backend ?s1) = (r2, w3)"
    using assms(5) by simp
  show ?thesis
    using Env_close_live [OF assms(1,2) call2 assms(6)] by (simp add: first)
qed

theorem Env_double_close_not_guarded_witness:
  "Env_close Scripted \<lparr>handle = Attr (Some 0), uid = Attr (PStr ''42'')\<rparr>
      (snd (Env_close Scripted \<lparr>handle = Attr (Some 0), uid = Attr (PStr ''42'')\<rparr>
             (script [Inr (PDict []), Inl (MuniverseError ''no such environment'')])))
     = (Some (MuniverseError ''no such environment''),
        \<lparr>backend = [],
         trace = [Call 0 ''CloseEnv'' [(''UID'', PStr ''42'')], Close 0,
                  Call 0 ''CloseEnv'' [(''UID'', PStr ''42'')], Close 0]\<rparr>)"
  using Env_double_close_not_guarded
          [of "\<lparr>handle = Attr (Some 0), uid = Attr (PStr ''42'')\<rparr>" 0 "PStr ''42''" Scripted
              "script [Inr (PDict []), Inl (MuniverseError ''no such environment'')]"
              "Inr (PDict [])" "[Inl (MuniverseError ''no such environment'')]"
              None "[Inl (MuniverseError ''no such environment'')]"
              "Inl (MuniverseError ''no such environment'')" "[]" None "[]"]
  by (simp add: Scripted_def script_def)

end
